theory Spec2Isabelle
  imports Main
begin

section \<open>Standard-library operations the handlers call\<close>

text \<open>
  Go strings are byte sequences: they are modelled as \<open>string\<close> (a list of 8-bit
  characters). The functions of this section are the documented behaviour of the Go
  standard library functions that \<^verbatim>\<open>handlers.go\<close> calls: \<^verbatim>\<open>strings.TrimSuffix\<close>,
  \<^verbatim>\<open>strconv.Itoa\<close>, \<^verbatim>\<open>hex.EncodeToString\<close>,
  \<^verbatim>\<open>base64.URLEncoding.WithPadding(base64.NoPadding).DecodeString\<close> and
  \<^verbatim>\<open>url.PathUnescape\<close>. \<^verbatim>\<open>json.Marshal\<close>, \<^verbatim>\<open>json.Unmarshal\<close>,
  \<^verbatim>\<open>sha256.Sum256\<close> and \<^verbatim>\<open>regexp\<close> are parameters of the definitions that use them.
\<close>

definition HasSuffix :: "string \<Rightarrow> string \<Rightarrow> bool" where
  "HasSuffix s suffix =
     (length suffix \<le> length s \<and> drop (length s - length suffix) s = suffix)"

definition TrimSuffix :: "string \<Rightarrow> string \<Rightarrow> string" where
  "TrimSuffix s suffix =
     (if HasSuffix s suffix then take (length s - length suffix) s else s)"

fun itoaNat :: "nat \<Rightarrow> string" where
  "itoaNat n =
     (if n < 10 then [''0123456789'' ! n]
      else itoaNat (n div 10) @ [''0123456789'' ! (n mod 10)])"

declare itoaNat.simps [simp del]

definition Itoa :: "int \<Rightarrow> string" where
  "Itoa i = (if i < 0 then CHR ''-'' # itoaNat (nat (- i)) else itoaNat (nat i))"

definition hexByte :: "char \<Rightarrow> string" where
  "hexByte c =
     [''0123456789abcdef'' ! ((of_char c :: nat) div 16),
      ''0123456789abcdef'' ! ((of_char c :: nat) mod 16)]"

definition EncodeToString :: "string \<Rightarrow> string" where
  "EncodeToString src = concat (map hexByte src)"

text \<open>
  The URL-safe base64 alphabet of RFC 4648. The decoder built with
  \<^verbatim>\<open>WithPadding(NoPadding)\<close> has no padding character: it skips carriage returns and
  line feeds, and every other byte outside the alphabet (the character \<open>=\<close> included) is
  a \<^verbatim>\<open>CorruptInputError\<close>. Four characters give three bytes; a final group of two or
  three characters gives one or two bytes, and a final group of one character is an error.
\<close>

definition encodeURL :: string where
  "encodeURL = ''ABCDEFGHIJKLMNOPQRSTUVWXYZabcdefghijklmnopqrstuvwxyz0123456789-_''"

fun indexFrom :: "nat \<Rightarrow> string \<Rightarrow> char \<Rightarrow> nat option" where
  "indexFrom i [] c = None"
| "indexFrom i (x # xs) c = (if x = c then Some i else indexFrom (i + 1) xs c)"

definition indexByte :: "string \<Rightarrow> char \<Rightarrow> nat option" where
  "indexByte s c = indexFrom 0 s c"

fun decodeMap :: "string \<Rightarrow> nat list option" where
  "decodeMap [] = Some []"
| "decodeMap (c # cs) =
     (if c = CHR 0x0A \<or> c = CHR 0x0D then decodeMap cs
      else case indexByte encodeURL c of
             None \<Rightarrow> None
           | Some v \<Rightarrow> map_option ((#) v) (decodeMap cs))"

fun decodeQuantum :: "nat list \<Rightarrow> string option" where
  "decodeQuantum (a # b # c # d # rest) =
     map_option
       (\<lambda>out. char_of (a * 4 + b div 16) # char_of ((b mod 16) * 16 + c div 4)
                # char_of ((c mod 4) * 64 + d) # out)
       (decodeQuantum rest)"
| "decodeQuantum [a, b, c] =
     Some [char_of (a * 4 + b div 16), char_of ((b mod 16) * 16 + c div 4)]"
| "decodeQuantum [a, b] = Some [char_of (a * 4 + b div 16)]"
| "decodeQuantum [a] = None"
| "decodeQuantum [] = Some []"

definition DecodeString :: "string \<Rightarrow> string option" where
  "DecodeString s = (case decodeMap s of None \<Rightarrow> None | Some vs \<Rightarrow> decodeQuantum vs)"

text \<open>
  \<^verbatim>\<open>url.PathUnescape\<close>: a \<open>%\<close> must be followed by two hexadecimal digits and stands
  for that byte; anything else is an \<^verbatim>\<open>EscapeError\<close>. Other bytes (\<open>+\<close> included) are
  kept.
\<close>

definition unhex :: "char \<Rightarrow> nat option" where
  "unhex c =
     (case indexByte ''0123456789abcdef'' c of
        Some v \<Rightarrow> Some v
      | None \<Rightarrow> map_option (\<lambda>v. v + 10) (indexByte ''ABCDEF'' c))"

fun PathUnescape :: "string \<Rightarrow> string option" where
  "PathUnescape [] = Some []"
| "PathUnescape (c # cs) =
     (if c = CHR ''%'' then
        (case cs of
           h1 # h2 # rest \<Rightarrow>
             (case (unhex h1, unhex h2) of
                (Some a, Some b) \<Rightarrow> map_option ((#) (char_of (a * 16 + b))) (PathUnescape rest)
              | _ \<Rightarrow> None)
         | _ \<Rightarrow> None)
      else map_option ((#) c) (PathUnescape cs))"


section \<open>Data model (types.go, addon.go)\<close>

record ExtraItem =
  eiName :: string
  eiIsRequired :: bool
  eiOptions :: "string list"
  eiOptionsLimit :: int

record CatalogItem =
  ciType :: string
  ciID :: string
  ciName :: string
  ciExtra :: "ExtraItem list"

record ResourceItem =
  riName :: string
  riTypes :: "string list"
  riIDprefixes :: "string list"

record BehaviorHints =
  Adult :: bool
  P2P :: bool
  Configurable :: bool
  ConfigurationRequired :: bool

record Manifest =
  ID :: string
  Name :: string
  Description :: string
  Version :: string
  ResourceItems :: "ResourceItem list"
  Types :: "string list"
  Catalogs :: "CatalogItem list"
  IDprefixes :: "string list"
  Background :: string
  Logo :: string
  ContactEmail :: string
  BehaviorHints :: BehaviorHints

text \<open>
  Modelled from the spec: the sentinel \<^verbatim>\<open>ErrNotFound\<close> that \<^verbatim>\<open>handlers.go\<close> tests with
  \<^verbatim>\<open>errors.Is\<close> is declared in a file that is not among the sources; the spec calls it
  the dedicated sentinel "not found" condition, distinct from any other failure. It is the
  constructor \<open>ErrNotFound\<close>. The other constructors are the errors a handler callback can
  return (\<^verbatim>\<open>errors.New\<close>, and an error wrapping another one) and the errors of the
  decoding functions.
\<close>

datatype error =
    ErrNotFound
  | ErrorString string
  | WrapError string error
  | CorruptInputError
  | EscapeError
  | UnmarshalError

text \<open>\<^verbatim>\<open>errors.Is\<close>: the error itself or an error of its \<^verbatim>\<open>Unwrap\<close> chain is the target.\<close>

fun Is :: "error \<Rightarrow> error \<Rightarrow> bool" where
  "Is (WrapError msg inner) target = (WrapError msg inner = target \<or> Is inner target)"
| "Is err target = (err = target)"

text \<open>
  A value of Go's \<^verbatim>\<open>any\<close> as \<^verbatim>\<open>decodeUserData\<close> returns it: \<^verbatim>\<open>nil\<close>, a string, or the
  pointer \<^verbatim>\<open>reflect.New(t).Interface()\<close> to a value of the registered type.
\<close>

datatype 'u anyValue = NilValue | StringValue string | PointerTo 'u

text \<open>
  A request as the handlers read it: \<^verbatim>\<open>r.PathValue\<close>, \<^verbatim>\<open>r.URL.Query().Get\<close> and
  \<^verbatim>\<open>r.Header.Get\<close> give the empty string for a name that is absent.
\<close>

record 'c request =
  Method :: string
  URLPath :: string
  PathValues :: "string \<rightharpoonup> string"
  Query :: "string \<rightharpoonup> string"
  Header :: "string \<rightharpoonup> string"
  Context :: 'c

definition PathValue :: "'c request \<Rightarrow> string \<Rightarrow> string" where
  "PathValue r name = (case PathValues r name of None \<Rightarrow> [] | Some v \<Rightarrow> v)"

definition QueryGet :: "'c request \<Rightarrow> string \<Rightarrow> string" where
  "QueryGet r name = (case Query r name of None \<Rightarrow> [] | Some v \<Rightarrow> v)"

definition HeaderGet :: "'c request \<Rightarrow> string \<Rightarrow> string" where
  "HeaderGet r name = (case Header r name of None \<Rightarrow> [] | Some v \<Rightarrow> v)"

text \<open>
  What a handler leaves in its \<^verbatim>\<open>http.ResponseWriter\<close>: the status code (200 when the body is
  written without \<^verbatim>\<open>WriteHeader\<close>), the headers it set, and the body. A JSON body is kept
  as the value given to \<^verbatim>\<open>json.NewEncoder(w).Encode\<close>, with the key of its envelope;
  \<open>'j\<close> is the type of the Go values that are handed to \<^verbatim>\<open>encoding/json\<close>. A handler
  is taken to be the first to write to its writer: the headers start empty.
\<close>

datatype 'j body =
    NoBody
  | PlainText string
  | ManifestJSON Manifest
  | MetasJSON 'j
  | StreamsJSON 'j
  | ValueJSON 'j

record 'j response =
  StatusCode :: int
  RespHeader :: "string \<rightharpoonup> string"
  Body :: "'j body"

text \<open>\<^verbatim>\<open>http.Error(w, msg, code)\<close>: a plain-text reply, the message followed by a newline.\<close>

definition httpError :: "string \<Rightarrow> int \<Rightarrow> 'j response" where
  "httpError msg code =
     \<lparr>StatusCode = code,
      RespHeader = [''Content-Type'' \<mapsto> ''text/plain; charset=utf-8'',
                    ''X-Content-Type-Options'' \<mapsto> ''nosniff''],
      Body = PlainText (msg @ [CHR 0x0A])\<rparr>"

type_synonym ('c, 'u, 'a) ResourceHandler = "'c \<Rightarrow> string \<Rightarrow> 'u anyValue \<Rightarrow> 'a \<times> error option"

type_synonym ('c, 'u) ManifestCallback = "'c \<Rightarrow> Manifest \<Rightarrow> 'u anyValue \<Rightarrow> int \<times> Manifest"

section \<open>handlers.go\<close>

text \<open>
  Calls of the logger write log records only and are left out of the model.
  \<open>marshal\<close> is \<^verbatim>\<open>json.Marshal\<close> at the type of the data (\<open>None\<close> when it returns an
  error), \<open>sum256\<close> is \<^verbatim>\<open>sha256.Sum256\<close>.
\<close>

definition generateETag :: "('a \<Rightarrow> string option) \<Rightarrow> (string \<Rightarrow> string) \<Rightarrow> 'a \<Rightarrow> string" where
  "generateETag marshal sum256 data =
     (case marshal data of
        None \<Rightarrow> []
      | Some jsonData \<Rightarrow> EncodeToString (sum256 jsonData))"

text \<open>
  The registered type \<open>t\<close> is \<^verbatim>\<open>nil\<close> (\<open>None\<close>) or a \<^verbatim>\<open>reflect.Type\<close>, modelled by what
  the code does with it: \<^verbatim>\<open>json.Unmarshal\<close> of a byte string into a new value of the
  type (\<open>None\<close> when \<^verbatim>\<open>json.Unmarshal\<close> returns an error). The result is the pair that
  the Go function returns.
\<close>

definition decodeUserData ::
  "string \<Rightarrow> (string \<Rightarrow> 'u option) option \<Rightarrow> bool \<Rightarrow> 'u anyValue \<times> error option" where
  "decodeUserData data t userDataIsBase64 =
     (if data = [] then (StringValue [], None)
      else case t of
        None \<Rightarrow> (StringValue [], None)
      | Some unmarshal \<Rightarrow>
          (case (if userDataIsBase64
                 then (case DecodeString (TrimSuffix data ''='') of
                         None \<Rightarrow> Inl CorruptInputError
                       | Some decoded \<Rightarrow> Inr decoded)
                 else (case PathUnescape data of
                         None \<Rightarrow> Inl EscapeError
                       | Some decoded \<Rightarrow> Inr decoded)) of
             Inl err \<Rightarrow> (NilValue, Some err)
           | Inr userDataDecoded \<Rightarrow>
               (case unmarshal userDataDecoded of
                  None \<Rightarrow> (NilValue, Some UnmarshalError)
                | Some userData \<Rightarrow> (PointerTo userData, None))))"

text \<open>
  \<^verbatim>\<open>createManifestHandler\<close> returns a closure over its parameter \<^verbatim>\<open>manifest\<close>, and the
  callback is given \<^verbatim>\<open>&manifest\<close>: what the callback writes stays in that variable. The
  closure is a state transformer on the captured variable: it takes the variable's
  current value and the request, and returns the response and the variable's new value.
  A callback returns its status code and the manifest as it left it.
\<close>

definition createManifestHandler ::
  "('c, 'u) ManifestCallback option \<Rightarrow> (string \<Rightarrow> 'u option) option \<Rightarrow> bool \<Rightarrow>
   Manifest \<Rightarrow> 'c request \<Rightarrow> 'j response \<times> Manifest" where
  "createManifestHandler callback userDataType userDataIsBase64 manifest r =
     (let userData = (if PathValue r ''userData'' = [] then QueryGet r ''userData''
                      else PathValue r ''userData'')
      in case decodeUserData userData userDataType userDataIsBase64 of
           (decodedUserData, Some err) \<Rightarrow> (httpError ''Invalid user data'' 400, manifest)
         | (decodedUserData, None) \<Rightarrow>
             (case callback of
                None \<Rightarrow>
                  (\<lparr>StatusCode = 200,
                    RespHeader = [''Content-Type'' \<mapsto> ''application/json''],
                    Body = ManifestJSON manifest\<rparr>, manifest)
              | Some cb \<Rightarrow>
                  (case cb (Context r) manifest decodedUserData of
                     (status, manifest') \<Rightarrow>
                       if status \<ge> 400
                       then (httpError ''Manifest callback returned error'' status, manifest')
                       else (\<lparr>StatusCode = 200,
                              RespHeader = [''Content-Type'' \<mapsto> ''application/json''],
                              Body = ManifestJSON manifest'\<rparr>, manifest'))))"

text \<open>The server calls the handler once per request; the captured variable lives on.\<close>

fun serveManifestRequests ::
  "(Manifest \<Rightarrow> 'c request \<Rightarrow> 'j response \<times> Manifest) \<Rightarrow> Manifest \<Rightarrow>
   'c request list \<Rightarrow> 'j response list" where
  "serveManifestRequests handler manifest [] = []"
| "serveManifestRequests handler manifest (r # rs) =
     (case handler manifest r of
        (resp, manifest') \<Rightarrow> resp # serveManifestRequests handler manifest' rs)"

definition createCatalogHandler ::
  "('j \<Rightarrow> string option) \<Rightarrow> (string \<Rightarrow> string) \<Rightarrow>
   (string \<rightharpoonup> ('c, 'u, 'j) ResourceHandler) \<Rightarrow> int \<Rightarrow> bool \<Rightarrow> bool \<Rightarrow>
   (string \<Rightarrow> 'u option) option \<Rightarrow> bool \<Rightarrow> 'c request \<Rightarrow> 'j response" where
  "createCatalogHandler marshal sum256 handlers cacheAge cachePublic handleEtag
       userDataType userDataIsBase64 r =
     (let typeStr = PathValue r ''type''; id0 = PathValue r ''id''
      in if typeStr = [] \<or> id0 = [] then httpError ''Missing type or id parameter'' 400
         else
           let id = TrimSuffix id0 ''.json'';
               userData = (if PathValue r ''userData'' = [] then QueryGet r ''userData''
                           else PathValue r ''userData'')
           in case decodeUserData userData userDataType userDataIsBase64 of
                (decodedUserData, Some err) \<Rightarrow> httpError ''Invalid user data'' 400
              | (decodedUserData, None) \<Rightarrow>
                  (case handlers typeStr of
                     None \<Rightarrow> httpError ''Unsupported type'' 400
                   | Some handler \<Rightarrow>
                       (case handler (Context r) id decodedUserData of
                          (items, Some err) \<Rightarrow> httpError ''Failed to get catalog'' 500
                        | (items, None) \<Rightarrow>
                            (let h1 = (if cacheAge > 0
                                       then [''Cache-Control'' \<mapsto> ''public, max-age='' @ Itoa cacheAge]
                                       else Map.empty);
                                 h2 = (if cachePublic then h1(''Cache-Control'' \<mapsto> ''public'')
                                       else h1)
                             in if handleEtag
                                then (let etag = generateETag marshal sum256 items;
                                          h3 = h2(''ETag'' \<mapsto> etag)
                                      in if HeaderGet r ''If-None-Match'' = etag
                                         then \<lparr>StatusCode = 304, RespHeader = h3, Body = NoBody\<rparr>
                                         else \<lparr>StatusCode = 200,
                                               RespHeader = h3(''Content-Type'' \<mapsto> ''application/json''),
                                               Body = MetasJSON items\<rparr>)
                                else \<lparr>StatusCode = 200,
                                      RespHeader = h2(''Content-Type'' \<mapsto> ''application/json''),
                                      Body = MetasJSON items\<rparr>))))"

definition createStreamHandler ::
  "('j \<Rightarrow> string option) \<Rightarrow> (string \<Rightarrow> string) \<Rightarrow>
   (string \<rightharpoonup> ('c, 'u, 'j) ResourceHandler) \<Rightarrow> int \<Rightarrow> bool \<Rightarrow> bool \<Rightarrow>
   (string \<Rightarrow> 'u option) option \<Rightarrow> bool \<Rightarrow> 'c request \<Rightarrow> 'j response" where
  "createStreamHandler marshal sum256 handlers cacheAge cachePublic handleEtag
       userDataType userDataIsBase64 r =
     (let typeStr = PathValue r ''type''; id0 = PathValue r ''id''
      in if typeStr = [] \<or> id0 = [] then httpError ''Missing type or id parameter'' 400
         else
           let id = TrimSuffix id0 ''.json'';
               userData = (if PathValue r ''userData'' = [] then QueryGet r ''userData''
                           else PathValue r ''userData'')
           in case decodeUserData userData userDataType userDataIsBase64 of
                (decodedUserData, Some err) \<Rightarrow> httpError ''Invalid user data'' 400
              | (decodedUserData, None) \<Rightarrow>
                  (case handlers typeStr of
                     None \<Rightarrow> httpError ''Unsupported type'' 400
                   | Some handler \<Rightarrow>
                       (case handler (Context r) id decodedUserData of
                          (items, Some err) \<Rightarrow>
                            if Is err ErrNotFound then httpError ''Not found'' 404
                            else httpError ''Failed to get streams'' 500
                        | (items, None) \<Rightarrow>
                            (let h1 = (if cacheAge > 0
                                       then [''Cache-Control'' \<mapsto> ''public, max-age='' @ Itoa cacheAge]
                                       else Map.empty);
                                 h2 = (if cachePublic then h1(''Cache-Control'' \<mapsto> ''public'')
                                       else h1)
                             in if handleEtag
                                then (let etag = generateETag marshal sum256 items;
                                          h3 = h2(''ETag'' \<mapsto> etag)
                                      in if HeaderGet r ''If-None-Match'' = etag
                                         then \<lparr>StatusCode = 304, RespHeader = h3, Body = NoBody\<rparr>
                                         else \<lparr>StatusCode = 200,
                                               RespHeader = h3(''Content-Type'' \<mapsto> ''application/json''),
                                               Body = StreamsJSON items\<rparr>)
                                else \<lparr>StatusCode = 200,
                                      RespHeader = h2(''Content-Type'' \<mapsto> ''application/json''),
                                      Body = StreamsJSON items\<rparr>))))"


text \<open>
  The closure \<^verbatim>\<open>middleware(next)\<close> that \<^verbatim>\<open>addRouteMatcherMiddleware\<close> builds, up to its
  call of \<^verbatim>\<open>next.ServeHTTP\<close>: it either answers itself (\<open>Inl\<close>) or passes the request on
  (\<open>Inr\<close>). A compiled \<^verbatim>\<open>*regexp.Regexp\<close> is its \<^verbatim>\<open>MatchString\<close>.
\<close>

definition routeMatcherMiddleware ::
  "bool \<Rightarrow> (string \<Rightarrow> bool) option \<Rightarrow> 'c request \<Rightarrow> 'j response + 'c request" where
  "routeMatcherMiddleware configurationRequired streamIDregex r =
     (if configurationRequired \<and>
         (if PathValue r ''userData'' = [] then QueryGet r ''userData''
          else PathValue r ''userData'') = []
      then Inl (httpError ''Configuration required'' 400)
      else case streamIDregex of
             None \<Rightarrow> Inr r
           | Some MatchString \<Rightarrow>
               (let id = (if PathValue r ''id'' = [] then QueryGet r ''id''
                          else PathValue r ''id'')
                in if id \<noteq> [] \<and> \<not> MatchString id
                   then Inl (httpError ''Invalid stream ID'' 400)
                   else Inr r))"

text \<open>
  An \<^verbatim>\<open>http.Handler\<close> is a handler function, the manifest handler (the one closure with a
  captured variable that is written while serving), a pointer to a \<^verbatim>\<open>ServeMux\<close>, or a
  middleware closure around the next handler. The \<^verbatim>\<open>ServeMux\<close> objects live in a heap, a
  list indexed by address; each is the list of its registered patterns and handlers, in
  the order of registration.

  \<^verbatim>\<open>mux.Handle\<close> panics when \<^verbatim>\<open>net/http\<close> does not accept the pattern: when the pattern
  is not well formed (a wildcard must be a whole path segment, for one) or conflicts with
  a pattern that the mux holds already. That decision belongs to \<^verbatim>\<open>net/http\<close> and is the
  parameter \<open>accepts\<close>, of the patterns registered so far and the new pattern. \<open>None\<close> is
  the panic, also for a pointer to no mux.
\<close>

datatype ('c, 'j) Handler =
    HandlerFunc "'c request \<Rightarrow> 'j response"
  | ManifestHandlerFunc "Manifest \<Rightarrow> 'c request \<Rightarrow> 'j response \<times> Manifest"
  | ServeMux nat
  | Middleware "'c request \<Rightarrow> 'j response + 'c request" "('c, 'j) Handler"

type_synonym ('c, 'j) heap = "(string \<times> ('c, 'j) Handler) list list"

definition NewServeMux :: "('c, 'j) heap \<Rightarrow> ('c, 'j) heap \<times> nat" where
  "NewServeMux hp = (hp @ [[]], length hp)"

definition Handle ::
  "(string list \<Rightarrow> string \<Rightarrow> bool) \<Rightarrow> ('c, 'j) heap \<Rightarrow> nat \<Rightarrow> string \<Rightarrow>
   ('c, 'j) Handler \<Rightarrow> ('c, 'j) heap option" where
  "Handle accepts hp mux pattern handler =
     (if mux < length hp \<and> accepts (map fst (hp ! mux)) pattern
      then Some (hp[mux := hp ! mux @ [(pattern, handler)]])
      else None)"

text \<open>
  \<^verbatim>\<open>addRouteMatcherMiddleware\<close> gets the pointer \<^verbatim>\<open>mux\<close> by value and returns nothing. Its
  last three statements keep the pointer in \<^verbatim>\<open>originalMux\<close>, bind the parameter to a new
  \<^verbatim>\<open>ServeMux\<close> and register the wrapped original on that one. All the caller can see is
  the heap, or the panic of the registration.
\<close>

definition addRouteMatcherMiddleware ::
  "(string list \<Rightarrow> string \<Rightarrow> bool) \<Rightarrow> ('c, 'j) heap \<Rightarrow> nat \<Rightarrow> bool \<Rightarrow>
   (string \<Rightarrow> bool) option \<Rightarrow> ('c, 'j) heap option" where
  "addRouteMatcherMiddleware accepts hp mux configurationRequired streamIDregex =
     (let middleware = Middleware (routeMatcherMiddleware configurationRequired streamIDregex);
          originalMux = mux
      in case NewServeMux hp of
           (hp', mux') \<Rightarrow> Handle accepts hp' mux' ''/'' (middleware (ServeMux originalMux)))"

definition NotFound :: "'c request \<Rightarrow> 'j response" where
  "NotFound r = httpError ''404 page not found'' 404"

text \<open>
  Serving a request. How a \<^verbatim>\<open>ServeMux\<close> chooses among its patterns is the business of
  \<^verbatim>\<open>net/http\<close> and a parameter: \<open>match\<close> maps the registered patterns and the request to
  the index of the chosen pattern and the request with its path values, or to \<open>None\<close>,
  which \<^verbatim>\<open>ServeMux\<close> answers with \<^verbatim>\<open>http.NotFound\<close>. The fuel bounds the nesting of
  handlers; \<open>None\<close> is no response. The manifest argument is the current value of the
  variable that the manifest handler captured.
\<close>

fun ServeHTTP ::
  "(string list \<Rightarrow> 'c request \<Rightarrow> (nat \<times> 'c request) option) \<Rightarrow> nat \<Rightarrow> ('c, 'j) heap \<Rightarrow>
   ('c, 'j) Handler \<Rightarrow> Manifest \<Rightarrow> 'c request \<Rightarrow> ('j response \<times> Manifest) option" where
  "ServeHTTP match 0 hp h m r = None"
| "ServeHTTP match (Suc n) hp (HandlerFunc f) m r = Some (f r, m)"
| "ServeHTTP match (Suc n) hp (ManifestHandlerFunc f) m r = Some (f m r)"
| "ServeHTTP match (Suc n) hp (ServeMux mux) m r =
     (if mux < length hp then
        (case match (map fst (hp ! mux)) r of
           None \<Rightarrow> Some (NotFound r, m)
         | Some (i, r') \<Rightarrow>
             if i < length (hp ! mux) then ServeHTTP match n hp (snd (hp ! mux ! i)) m r'
             else Some (NotFound r, m))
      else None)"
| "ServeHTTP match (Suc n) hp (Middleware pre next) m r =
     (case pre r of
        Inl resp \<Rightarrow> Some (resp, m)
      | Inr r' \<Rightarrow> ServeHTTP match n hp next m r')"

section \<open>addon.go\<close>

text \<open>
  A \<^verbatim>\<open>*slog.Logger\<close> and a \<^verbatim>\<open>MetaFetcher\<close> are what the caller supplied or what
  \<^verbatim>\<open>NewAddon\<close> creates; a \<^verbatim>\<open>time.Duration\<close> is its number of nanoseconds.
\<close>

datatype Logger = CustomLogger | NewLogger string string

datatype MetaFetcher = CustomMetaFetcher | CinemetaClient int

record Options =
  BindAddr :: string
  Port :: int
  Logger :: "Logger option"
  LoggingLevel :: string
  LogEncoding :: string
  DisableRequestLogging :: bool
  LogIPs :: bool
  LogUserAgent :: bool
  LogMediaName :: bool
  CacheAgeCatalogs :: int
  CacheAgeStreams :: int
  CachePublicCatalogs :: bool
  CachePublicStreams :: bool
  HandleEtagCatalogs :: bool
  HandleEtagStreams :: bool
  MetaClient :: "MetaFetcher option"
  CinemetaTimeout :: int
  PutMetaInContext :: bool
  ConfigureHTMLfs :: "unit option"
  Metrics :: bool
  Profiling :: bool
  RedirectURL :: string
  UserDataIsBase64 :: bool
  StreamIDregex :: string

definition DefaultOptions :: Options where
  "DefaultOptions =
     \<lparr>BindAddr = ''0.0.0.0'', Port = 8080, Logger = None, LoggingLevel = ''info'',
      LogEncoding = ''console'', DisableRequestLogging = False, LogIPs = False,
      LogUserAgent = False, LogMediaName = False, CacheAgeCatalogs = 0, CacheAgeStreams = 0,
      CachePublicCatalogs = False, CachePublicStreams = False, HandleEtagCatalogs = False,
      HandleEtagStreams = False, MetaClient = None, CinemetaTimeout = 0,
      PutMetaInContext = False, ConfigureHTMLfs = None, Metrics = False, Profiling = False,
      RedirectURL = [], UserDataIsBase64 = False, StreamIDregex = []\<rparr>"

record ('c, 'j) customEndpoint =
  ceMethod :: string
  cePath :: string
  ceHandler :: "'c request \<Rightarrow> 'j response"

record ('c, 'u, 'j) Addon =
  manifest :: Manifest
  catalogHandlers :: "(string \<rightharpoonup> ('c, 'u, 'j) ResourceHandler) option"
  streamHandlers :: "(string \<rightharpoonup> ('c, 'u, 'j) ResourceHandler) option"
  configHandler :: "('c \<Rightarrow> 'u anyValue \<Rightarrow> 'j \<times> error option) option"
  configUI :: "'j option"
  opts :: Options
  logger :: "Logger option"
  customEndpoints :: "('c, 'j) customEndpoint list"
  manifestCallback :: "('c, 'u) ManifestCallback option"
  userDataType :: "(string \<Rightarrow> 'u option) option"
  metaClient :: "MetaFetcher option"

text \<open>
  \<^verbatim>\<open>NewAddon\<close> returns the error of the first precondition that fails, or the addon. Its
  parameters carry a prime, as the names without one are the fields of \<open>Addon\<close>.
\<close>

definition NewAddon ::
  "Manifest \<Rightarrow> (string \<rightharpoonup> ('c, 'u, 'j) ResourceHandler) option \<Rightarrow>
   (string \<rightharpoonup> ('c, 'u, 'j) ResourceHandler) option \<Rightarrow> Options \<Rightarrow> string + ('c, 'u, 'j) Addon" where
  "NewAddon manifest' catalogHandlers' streamHandlers' opts' =
     (if ID manifest' = [] \<or> Name manifest' = [] \<or> Description manifest' = [] \<or> Version manifest' = []
      then Inl ''An empty manifest was passed''
      else if catalogHandlers' = None \<and> streamHandlers' = None
      then Inl ''No handler was passed''
      else if (CachePublicCatalogs opts' \<and> CacheAgeCatalogs opts' = 0) \<or>
              (CachePublicStreams opts' \<and> CacheAgeStreams opts' = 0)
      then Inl ''Enabling public caching only makes sense when also setting a cache age''
      else if (HandleEtagCatalogs opts' \<and> CacheAgeCatalogs opts' = 0) \<or>
              (HandleEtagStreams opts' \<and> CacheAgeStreams opts' = 0)
      then Inl ''ETag handling only makes sense when also setting a cache age''
      else if DisableRequestLogging opts' \<and> (LogIPs opts' \<or> LogUserAgent opts')
      then Inl ''Enabling IP or user agent logging doesn't make sense when disabling request logging''
      else if Logger opts' \<noteq> None \<and> LoggingLevel opts' \<noteq> []
      then Inl ''Setting a logging level in the options doesn't make sense when you already set a custom logger''
      else if DisableRequestLogging opts' \<and> LogMediaName opts'
      then Inl ''Enabling media name logging doesn't make sense when disabling request logging''
      else if MetaClient opts' \<noteq> None \<and> \<not> LogMediaName opts' \<and> \<not> PutMetaInContext opts'
      then Inl ''Setting a meta client when neither logging the media name nor putting it in the context doesn't make sense''
      else if MetaClient opts' \<noteq> None \<and> CinemetaTimeout opts' \<noteq> 0
      then Inl ''Setting a Cinemeta timeout doesn't make sense when you already set a meta client''
      else if ConfigurationRequired (BehaviorHints manifest') \<and> \<not> Configurable (BehaviorHints manifest')
      then Inl ''Requiring a configuration only makes sense when also making the addon configurable''
      else if ConfigureHTMLfs opts' \<noteq> None \<and> \<not> Configurable (BehaviorHints manifest')
      then Inl ''Setting a ConfigureHTMLfs only makes sense when also making the addon configurable''
      else
        let opts1 = (if BindAddr opts' = [] then opts'\<lparr>BindAddr := BindAddr DefaultOptions\<rparr> else opts');
            opts2 = (if Port opts1 = 0 then opts1\<lparr>Port := Port DefaultOptions\<rparr> else opts1);
            opts3 = (if LoggingLevel opts2 = []
                     then opts2\<lparr>LoggingLevel := LoggingLevel DefaultOptions\<rparr> else opts2);
            opts4 = (if LogEncoding opts3 = []
                     then opts3\<lparr>LogEncoding := LogEncoding DefaultOptions\<rparr> else opts3);
            opts5 = (if CinemetaTimeout opts4 = 0
                     then opts4\<lparr>CinemetaTimeout := CinemetaTimeout DefaultOptions\<rparr> else opts4);
            opts6 = (if Logger opts5 = None
                     then opts5\<lparr>Logger := Some (NewLogger (LoggingLevel opts5) (LogEncoding opts5))\<rparr>
                     else opts5);
            opts7 = (if MetaClient opts6 = None \<and> (LogMediaName opts6 \<or> PutMetaInContext opts6)
                     then opts6\<lparr>MetaClient := Some (CinemetaClient (CinemetaTimeout opts6))\<rparr>
                     else opts6)
        in Inr \<lparr>manifest = manifest', catalogHandlers = catalogHandlers',
                 streamHandlers = streamHandlers', configHandler = None, configUI = None,
                 opts = opts7,
                 logger = Logger opts7,
                 customEndpoints = [], manifestCallback = None, userDataType = None,
                 metaClient = MetaClient opts7\<rparr>)"

definition RegisterUserData ::
  "('c, 'u, 'j) Addon \<Rightarrow> (string \<Rightarrow> 'u option) \<Rightarrow> ('c, 'u, 'j) Addon" where
  "RegisterUserData a t = a\<lparr>userDataType := Some t\<rparr>"

definition DecodeUserData ::
  "('c, 'u, 'j) Addon \<Rightarrow> string \<Rightarrow> 'c request \<Rightarrow> 'u anyValue \<times> error option" where
  "DecodeUserData a param r =
     decodeUserData (QueryGet r param) (userDataType a) (UserDataIsBase64 (opts a))"

definition AddEndpoint ::
  "('c, 'u, 'j) Addon \<Rightarrow> string \<Rightarrow> string \<Rightarrow> ('c request \<Rightarrow> 'j response) \<Rightarrow> ('c, 'u, 'j) Addon" where
  "AddEndpoint a method path handler =
     a\<lparr>customEndpoints :=
         customEndpoints a @ [\<lparr>ceMethod = method, cePath = path, ceHandler = handler\<rparr>]\<rparr>"

definition SetManifestCallback ::
  "('c, 'u, 'j) Addon \<Rightarrow> ('c, 'u) ManifestCallback \<Rightarrow> ('c, 'u, 'j) Addon" where
  "SetManifestCallback a callback = a\<lparr>manifestCallback := Some callback\<rparr>"

definition SetConfigurationHandler ::
  "('c, 'u, 'j) Addon \<Rightarrow> ('c \<Rightarrow> 'u anyValue \<Rightarrow> 'j \<times> error option) \<Rightarrow> ('c, 'u, 'j) Addon" where
  "SetConfigurationHandler a handler = a\<lparr>configHandler := Some handler\<rparr>"

definition SetConfigurationUI :: "('c, 'u, 'j) Addon \<Rightarrow> 'j \<Rightarrow> ('c, 'u, 'j) Addon" where
  "SetConfigurationUI a ui = a\<lparr>configUI := Some ui\<rparr>"


section \<open>The addon of addon\_test.go\<close>

text \<open>
  The manifest and the stream handler of \<^verbatim>\<open>TestBasicAddon\<close>, with the stream items as
  the JSON values. The handler answers the id of one film and the sentinel otherwise.
\<close>

record SubtitleItem =
  siID :: string
  siURL :: string
  siLanguage :: string
  siLabel :: string

record StreamBehaviorHints =
  BingeWatch :: bool
  AutoPlay :: bool
  Proxy :: bool

record StreamItem =
  URL :: string
  YoutubeID :: string
  InfoHash :: string
  ExternalURL :: string
  Title :: string
  FileIndex :: nat
  Subtitles :: "SubtitleItem list"
  StreamBehaviorHints :: StreamBehaviorHints

definition testManifest :: Manifest where
  "testManifest =
     \<lparr>ID = ''org.myexampleaddon'', Name = ''simple example'',
      Description = ''simple example'', Version = ''1.0.0'',
      ResourceItems = [\<lparr>riName = ''stream'', riTypes = [''movie''], riIDprefixes = []\<rparr>],
      Types = [''movie''], Catalogs = [], IDprefixes = [''tt''], Background = [], Logo = [],
      ContactEmail = [],
      BehaviorHints = \<lparr>Adult = False, P2P = False, Configurable = False,
                         ConfigurationRequired = False\<rparr>\<rparr>"

definition testStreamItem :: StreamItem where
  "testStreamItem =
     \<lparr>URL = ''http://distribution.bbb3d.renderfarming.net/video/mp4/bbb_sunflower_1080p_30fps_normal.mp4'',
      YoutubeID = [], InfoHash = [], ExternalURL = [], Title = ''1080p'', FileIndex = 0,
      Subtitles = [],
      StreamBehaviorHints = \<lparr>BingeWatch = False, AutoPlay = False, Proxy = False\<rparr>\<rparr>"

definition testStreamHandler :: "(unit, string, StreamItem list) ResourceHandler" where
  "testStreamHandler ctx streamID userData =
     (if streamID = ''tt1254207'' then ([testStreamItem], None) else ([], Some ErrNotFound))"

definition testStreamHandlers :: "string \<rightharpoonup> (unit, string, StreamItem list) ResourceHandler" where
  "testStreamHandlers = [''movie'' \<mapsto> testStreamHandler]"

text \<open>
  A GET request as a handler sees it once the path values \<open>type\<close> and \<open>id\<close> and the
  optional user data segment are set; no query, no header but \<open>If-None-Match\<close> when one is
  given.
\<close>

definition testRequest :: "string \<Rightarrow> string \<Rightarrow> string \<Rightarrow> string \<Rightarrow> unit request" where
  "testRequest userData typeStr streamID ifNoneMatch =
     \<lparr>Method = ''GET'', URLPath = [],
      PathValues = (if userData = [] then [''type'' \<mapsto> typeStr, ''id'' \<mapsto> streamID]
                    else [''userData'' \<mapsto> userData, ''type'' \<mapsto> typeStr,
                          ''id'' \<mapsto> streamID]),
      Query = Map.empty,
      Header = (if ifNoneMatch = [] then Map.empty else [''If-None-Match'' \<mapsto> ifNoneMatch]),
      Context = ()\<rparr>"


definition testManifestRequest :: "string \<Rightarrow> unit request" where
  "testManifestRequest userData =
     \<lparr>Method = ''GET'', URLPath = [],
      PathValues = (if userData = [] then Map.empty else [''userData'' \<mapsto> userData]),
      Query = Map.empty, Header = Map.empty, Context = ()\<rparr>"

text \<open>
  Further examples. The catalog handler of the catalog example answers the sentinel for
  every catalog but its own; its items are written as their ids. The registered type
  \<^verbatim>\<open>json.RawMessage\<close>, which keeps the JSON text it is given; the examples give it
  valid JSON only. A manifest callback that alters the manifest for the user whose data
  it is given, which is the second use that the documentation of \<^verbatim>\<open>ManifestCallback\<close>
  describes. Stand-ins for \<^verbatim>\<open>json.Marshal\<close> and \<^verbatim>\<open>sha256.Sum256\<close>, for concrete
  runs. A mux that holds the stream handler of the test under a pattern with the two
  wildcards, and a compiled pattern that the ids with the prefix \<open>kitsu:\<close> match.
\<close>

record 'j Lib =
  Marshal :: "'j \<Rightarrow> string option"
  Sum256 :: "string \<Rightarrow> string"

definition RawMessage :: "string \<Rightarrow> string option" where
  "RawMessage jsonText = Some jsonText"

definition movieHandler :: "(unit, string, string list) ResourceHandler" where
  "movieHandler ctx catalogID userData =
     (if catalogID \<noteq> ''blender'' then ([], Some ErrNotFound)
      else ([''tt1254207'', ''tt1727587''], None))"

definition personalCallback :: "(unit, string) ManifestCallback" where
  "personalCallback ctx m userData =
     (case userData of
        PointerTo user \<Rightarrow> (200, m\<lparr>Name := Name m @ '' for '' @ user\<rparr>)
      | _ \<Rightarrow> (200, m))"

definition testLib :: "StreamItem list Lib" where
  "testLib = \<lparr>Marshal = (\<lambda>items. Some ''[]''), Sum256 = (\<lambda>bytes. bytes)\<rparr>"

definition testMux :: "(unit, StreamItem list) heap" where
  "testMux =
     [[(''/stream/{type}/{id}'',
        HandlerFunc
          (createStreamHandler (Marshal testLib) (Sum256 testLib) testStreamHandlers
             0 False False None False))]]"

definition kitsuOnly :: "string \<Rightarrow> bool" where
  "kitsuOnly s = (take 6 s = ''kitsu:'')"

section \<open>Facts about the examples\<close>

lemma testRequest_simps:
  "PathValue (testRequest [] typeStr streamID ifNoneMatch) ''type'' = typeStr"
  "PathValue (testRequest [] typeStr streamID ifNoneMatch) ''id'' = streamID"
  "PathValue (testRequest [] typeStr streamID ifNoneMatch) ''userData'' = []"
  "QueryGet (testRequest userData typeStr streamID ifNoneMatch) name = []"
  "HeaderGet (testRequest userData typeStr streamID []) name = []"
  "Context (testRequest userData typeStr streamID ifNoneMatch) = ()"
  by (simp_all add: testRequest_def PathValue_def QueryGet_def HeaderGet_def)

lemma testRequest_IfNoneMatch:
  "ifNoneMatch \<noteq> [] \<Longrightarrow>
   HeaderGet (testRequest userData typeStr streamID ifNoneMatch) ''If-None-Match'' = ifNoneMatch"
  by (simp add: testRequest_def HeaderGet_def)

lemma testManifestRequest_simps:
  "PathValue (testManifestRequest userData) ''userData'' = userData"
  "QueryGet (testManifestRequest userData) name = []"
  "Context (testManifestRequest userData) = ()"
  by (simp_all add: testManifestRequest_def PathValue_def QueryGet_def)

lemma TrimSuffix_examples:
  "TrimSuffix ''tt1254207.json'' ''.json'' = ''tt1254207''"
  "TrimSuffix ''tt0000000.json'' ''.json'' = ''tt0000000''"
  "TrimSuffix ''sintel.json'' ''.json'' = ''sintel''"
  by (simp_all add: TrimSuffix_def HasSuffix_def)

lemma decodeUserData_no_type:
  "decodeUserData data None userDataIsBase64 = (StringValue [], None)"
  by (simp add: decodeUserData_def)

section \<open>The user data codec\<close>

text \<open>
  Claim C10. For every input string, registered type and encoding mode,
  \<^verbatim>\<open>decodeUserData\<close> returns a nil value exactly when it returns an error. If the input
  is empty or no type is registered (whatever the input is then), it returns the empty
  string and no error; otherwise it returns nil with an error, or no error and the pointer
  to a value that \<^verbatim>\<open>json.Unmarshal\<close> has produced at the registered type.
\<close>

theorem decodeUserData_result:
  "(fst (decodeUserData data t userDataIsBase64) = NilValue) =
     (snd (decodeUserData data t userDataIsBase64) \<noteq> None) \<and>
   (if data = [] \<or> t = None
    then decodeUserData data t userDataIsBase64 = (StringValue [], None)
    else (\<exists>err. decodeUserData data t userDataIsBase64 = (NilValue, Some err)) \<or>
         (\<exists>unmarshal decoded v.
            t = Some unmarshal \<and> unmarshal decoded = Some v \<and>
            decodeUserData data t userDataIsBase64 = (PointerTo v, None)))"
  by (auto simp: decodeUserData_def split: option.splits sum.splits)

lemma decodeMap_padding: "CHR ''='' \<in> set s \<Longrightarrow> decodeMap s = None"
proof (induction s)
  case Nil
  then show ?case by simp
next
  case (Cons c cs)
  have "indexByte encodeURL CHR ''='' = None"
    by (simp add: indexByte_def encodeURL_def)
  with Cons show ?case
    by (cases "c = CHR ''=''") (auto split: option.splits)
qed

text \<open>
  Claim C4, which the code does not meet for base64url with padding. The comment in
  \<^verbatim>\<open>decodeUserData\<close> says that the padding is removed so that values with and without
  padding work, but \<^verbatim>\<open>strings.TrimSuffix(data, "=")\<close> removes one \<open>=\<close> only. The
  encoding of a value whose JSON text has a length of 1 modulo 3 ends in \<open>==\<close>: for
  every such input the decoder without padding is given a \<open>=\<close> and fails, so the value
  does not come back.
\<close>

theorem decodeUserData_double_padding:
  assumes "HasSuffix data ''==''"
  shows "decodeUserData data (Some unmarshal) True = (NilValue, Some CorruptInputError)"
proof -
  from assms obtain p where p: "data = p @ ''==''"
    unfolding HasSuffix_def by (metis append_take_drop_id)
  then have "TrimSuffix data ''='' = p @ ''=''"
    by (simp add: TrimSuffix_def HasSuffix_def)
  then have "DecodeString (TrimSuffix data ''='') = None"
    by (simp add: DecodeString_def decodeMap_padding)
  with p show ?thesis by (simp add: decodeUserData_def)
qed

text \<open>
  The base64url encoding of the seven bytes \<open>{"a":1}\<close>, with its padding and without
  it.
\<close>

theorem decodeUserData_double_padding_witness:
  "decodeUserData ''eyJhIjoxfQ=='' (Some RawMessage) True = (NilValue, Some CorruptInputError) \<and>
   decodeUserData ''eyJhIjoxfQ'' (Some RawMessage) True =
     (PointerTo [CHR ''{'', CHR 0x22, CHR ''a'', CHR 0x22, CHR '':'', CHR ''1'', CHR ''}''], None)"
proof -
  have "HasSuffix ''eyJhIjoxfQ=='' ''==''"
    by (simp add: HasSuffix_def)
  then have padded:
    "decodeUserData ''eyJhIjoxfQ=='' (Some RawMessage) True = (NilValue, Some CorruptInputError)"
    by (rule decodeUserData_double_padding)
  have "decodeUserData ''eyJhIjoxfQ'' (Some RawMessage) True =
     (PointerTo [CHR ''{'', CHR 0x22, CHR ''a'', CHR 0x22, CHR '':'', CHR ''1'', CHR ''}''], None)"
    by code_simp
  with padded show ?thesis by simp
qed

section \<open>The manifest handler\<close>

text \<open>
  Claim C7 as it is stated fails: a manifest request whose user data cannot be decoded
  is answered 400 before the callback is looked at, also when no callback is registered.
  Here the user data \<open>!\<close> is not base64.
\<close>

theorem manifest_request_counterexample:
  "StatusCode (fst (createManifestHandler (None :: (unit, string) ManifestCallback option)
      (Some RawMessage) True testManifest (testManifestRequest ''!'')
      :: StreamItem list response \<times> Manifest)) = 400"
proof -
  have "DecodeString (TrimSuffix ''!'' ''='') = None"
    by (simp add: TrimSuffix_def HasSuffix_def DecodeString_def indexByte_def encodeURL_def)
  then show ?thesis
    by (simp add: createManifestHandler_def testManifestRequest_simps decodeUserData_def
          httpError_def)
qed

text \<open>
  Claim C7, amended: for every manifest request whose user data is absent or decodes,
  with no callback the response is 200 with the manifest as it stands; with a callback
  that returns a status below 400 the response is 200 with the manifest as the callback
  left it; with a callback that returns a status of 400 or more the response has that
  status and the plain-text message, no manifest.
\<close>

theorem createManifestHandler_response:
  assumes "decodeUserData (if PathValue r ''userData'' = [] then QueryGet r ''userData''
                           else PathValue r ''userData'') t b64 = (decodedUserData, None)"
  shows "(case callback of
            None \<Rightarrow>
              createManifestHandler callback t b64 m r =
                (\<lparr>StatusCode = 200, RespHeader = [''Content-Type'' \<mapsto> ''application/json''],
                  Body = ManifestJSON m\<rparr>, m)
          | Some cb \<Rightarrow>
              (if fst (cb (Context r) m decodedUserData) < 400
               then createManifestHandler callback t b64 m r =
                      (\<lparr>StatusCode = 200,
                        RespHeader = [''Content-Type'' \<mapsto> ''application/json''],
                        Body = ManifestJSON (snd (cb (Context r) m decodedUserData))\<rparr>,
                       snd (cb (Context r) m decodedUserData))
               else StatusCode (fst (createManifestHandler callback t b64 m r)) =
                      fst (cb (Context r) m decodedUserData) \<and>
                    Body (fst (createManifestHandler callback t b64 m r)) =
                      PlainText (''Manifest callback returned error'' @ [CHR 0x0A])))"
  using assms
  by (auto simp: createManifestHandler_def httpError_def split: option.splits prod.splits)

theorem createManifestHandler_response_witness:
  "createManifestHandler (None :: (unit, string) ManifestCallback option) None False
      testManifest (testManifestRequest []) =
     (\<lparr>StatusCode = 200, RespHeader = [''Content-Type'' \<mapsto> ''application/json''],
       Body = ManifestJSON testManifest\<rparr> :: StreamItem list response, testManifest)"
  using createManifestHandler_response[where r="testManifestRequest []" and t=None
      and ?b64.0=False and decodedUserData="StringValue []" and m=testManifest
      and callback="None :: (unit, string) ManifestCallback option"]
  by (simp add: testManifestRequest_simps decodeUserData_no_type)

text \<open>
  Claim C8, which the code does not meet. The callback writes to the variable that the
  handler closure captured, and the next request starts from what it left there:
  \<^verbatim>\<open>Manifest.clone\<close> exists in \<^verbatim>\<open>types.go\<close> and is never called. For two requests in
  a row that both decode and reach the callback, the second response carries what the
  callback made of the manifest left by the first request, not of the manifest given at
  construction.
\<close>

theorem manifest_callback_mutation_persists:
  assumes "decodeUserData (if PathValue r1 ''userData'' = [] then QueryGet r1 ''userData''
                           else PathValue r1 ''userData'') t b64 = (d1, None)"
    and "cb (Context r1) m d1 = (s1, m1)"
    and "decodeUserData (if PathValue r2 ''userData'' = [] then QueryGet r2 ''userData''
                           else PathValue r2 ''userData'') t b64 = (d2, None)"
    and "cb (Context r2) m1 d2 = (s2, m2)" and "s2 < 400"
  shows "map Body (tl (serveManifestRequests (createManifestHandler (Some cb) t b64) m [r1, r2]))
           = [ManifestJSON m2]"
  using assms by (simp add: createManifestHandler_def)

text \<open>
  A request with the user data \<open>123\<close>, for which the callback alters the name, and then
  a request without user data, for which the callback leaves the manifest alone: the
  second response has the name made for \<open>123\<close>. The same request on its own is answered
  with the manifest as constructed.
\<close>

theorem manifest_callback_mutation_persists_witness:
  "map Body (tl (serveManifestRequests
        (createManifestHandler (Some personalCallback) (Some RawMessage) False)
        testManifest [testManifestRequest ''123'', testManifestRequest []])) =
     [ManifestJSON (testManifest\<lparr>Name := ''simple example for 123''\<rparr>)
        :: StreamItem list body] \<and>
   map Body (serveManifestRequests
        (createManifestHandler (Some personalCallback) (Some RawMessage) False)
        testManifest [testManifestRequest []]) =
     [ManifestJSON testManifest :: StreamItem list body]"
proof -
  have d1: "decodeUserData ''123'' (Some RawMessage) False = (PointerTo ''123'', None)"
    by (simp add: decodeUserData_def RawMessage_def)
  have d2: "decodeUserData [] (Some RawMessage) False = (StringValue [], None :: error option)"
    by (simp add: decodeUserData_def)
  have n: "Name testManifest = ''simple example''"
    by (simp add: testManifest_def)
  have "map Body (tl (serveManifestRequests
        (createManifestHandler (Some personalCallback) (Some RawMessage) False)
        testManifest [testManifestRequest ''123'', testManifestRequest []])) =
     [ManifestJSON (testManifest\<lparr>Name := ''simple example for 123''\<rparr>)
        :: StreamItem list body]"
    by (rule manifest_callback_mutation_persists[where ?d1.0="PointerTo ''123''"
          and ?s1.0=200 and ?m1.0="testManifest\<lparr>Name := ''simple example for 123''\<rparr>"
          and ?d2.0="StringValue []" and ?s2.0=200])
       (simp_all add: testManifestRequest_simps d1 d2 personalCallback_def n)
  moreover have "createManifestHandler (Some personalCallback) (Some RawMessage) False testManifest
        (testManifestRequest []) =
      (\<lparr>StatusCode = 200, RespHeader = [''Content-Type'' \<mapsto> ''application/json''],
        Body = ManifestJSON testManifest\<rparr> :: StreamItem list response, testManifest)"
    by (simp add: createManifestHandler_def testManifestRequest_simps d2 personalCallback_def)
  ultimately show ?thesis by simp
qed


section \<open>The catalog and stream handlers\<close>

text \<open>
  In the theorems of this section a request has reached the callback of its type: the path
  values \<open>type\<close> and \<open>id\<close> are not empty, the user data is absent or decodes, and a
  handler is registered for the type.
\<close>

text \<open>
  Claim C1, which the code does not meet. \<^verbatim>\<open>Options\<close> documents the public flag as
  sending the headers "with the max-age set to" the cache age. The handlers first set
  \<open>Cache-Control\<close> to \<open>public, max-age=N\<close> when the cache age is positive, and then, when
  the public flag is set, overwrite it with \<open>public\<close>. So for every successful catalog
  and stream response the header is \<open>public\<close> when the flag is set, with no max-age and
  also when the cache age is 0; and it is \<open>public, max-age=N\<close> when the flag is not set
  and the cache age is positive.
\<close>

theorem handlers_Cache_Control:
  assumes "PathValue r ''type'' \<noteq> []" and "PathValue r ''id'' \<noteq> []"
    and "decodeUserData (if PathValue r ''userData'' = [] then QueryGet r ''userData''
                         else PathValue r ''userData'') t b64 = (decodedUserData, None)"
    and "handlers (PathValue r ''type'') = Some handler"
    and "handler (Context r) (TrimSuffix (PathValue r ''id'') ''.json'') decodedUserData
           = (items, None)"
  shows "RespHeader (createStreamHandler marshal sum256 handlers cacheAge cachePublic handleEtag
                       t b64 r) ''Cache-Control'' =
           (if cachePublic then Some ''public''
            else if cacheAge > 0 then Some (''public, max-age='' @ Itoa cacheAge) else None) \<and>
         RespHeader (createCatalogHandler marshal sum256 handlers cacheAge cachePublic handleEtag
                       t b64 r) ''Cache-Control'' =
           (if cachePublic then Some ''public''
            else if cacheAge > 0 then Some (''public, max-age='' @ Itoa cacheAge) else None)"
  using assms by (simp add: createStreamHandler_def createCatalogHandler_def Let_def)

text \<open>
  A stream request for the film of the test, with the path values \<open>type\<close> and \<open>id\<close>
  set, handled with a cache age of an hour and the public flag, with the cache age and no
  flag, and with the flag and no cache age.
\<close>

theorem handlers_Cache_Control_witness:
  "RespHeader (createStreamHandler (Marshal testLib) (Sum256 testLib) testStreamHandlers
      3600 True False None False (testRequest [] ''movie'' ''tt1254207.json'' []))
      ''Cache-Control'' = Some ''public'' \<and>
   RespHeader (createStreamHandler (Marshal testLib) (Sum256 testLib) testStreamHandlers
      3600 False False None False (testRequest [] ''movie'' ''tt1254207.json'' []))
      ''Cache-Control'' = Some ''public, max-age=3600'' \<and>
   RespHeader (createStreamHandler (Marshal testLib) (Sum256 testLib) testStreamHandlers
      0 True False None False (testRequest [] ''movie'' ''tt1254207.json'' []))
      ''Cache-Control'' = Some ''public''"
proof -
  have Itoa: "Itoa 3600 = ''3600''"
    by (simp add: Itoa_def itoaNat.simps)
  note h = handlers_Cache_Control[where r="testRequest [] ''movie'' ''tt1254207.json'' []"
      and t=None and ?b64.0=False and decodedUserData="StringValue []"
      and handlers=testStreamHandlers and handler=testStreamHandler
      and items="[testStreamItem]" and marshal="Marshal testLib"
      and ?sum256.0="Sum256 testLib" and handleEtag=False]
  show ?thesis
    using h[where cacheAge=3600 and cachePublic=True]
      h[where cacheAge=3600 and cachePublic=False] h[where cacheAge=0 and cachePublic=True]
    by (simp add: testRequest_simps TrimSuffix_examples decodeUserData_no_type
          testStreamHandlers_def testStreamHandler_def Itoa)
qed

text \<open>
  Claim C5. With \<^verbatim>\<open>handleEtag\<close> enabled, every successful stream and catalog response
  carries the header \<open>ETag\<close> with the hexadecimal text of the SHA-256 hash of the JSON
  serialization of the payload, which is the value that the callback returned and that
  the response wraps in its envelope; a request whose \<open>If-None-Match\<close> is equal to it is
  answered 304 with no body, and any other request 200 with the enveloped payload.
\<close>

theorem handlers_ETag:
  assumes "PathValue r ''type'' \<noteq> []" and "PathValue r ''id'' \<noteq> []"
    and "decodeUserData (if PathValue r ''userData'' = [] then QueryGet r ''userData''
                         else PathValue r ''userData'') t b64 = (decodedUserData, None)"
    and "handlers (PathValue r ''type'') = Some handler"
    and "handler (Context r) (TrimSuffix (PathValue r ''id'') ''.json'') decodedUserData
           = (items, None)"
    and "marshal items = Some jsonData"
  shows "RespHeader (createStreamHandler marshal sum256 handlers cacheAge cachePublic True
                       t b64 r) ''ETag'' = Some (EncodeToString (sum256 jsonData)) \<and>
         (if HeaderGet r ''If-None-Match'' = EncodeToString (sum256 jsonData)
          then StatusCode (createStreamHandler marshal sum256 handlers cacheAge cachePublic True
                             t b64 r) = 304 \<and>
               Body (createStreamHandler marshal sum256 handlers cacheAge cachePublic True
                       t b64 r) = NoBody
          else StatusCode (createStreamHandler marshal sum256 handlers cacheAge cachePublic True
                             t b64 r) = 200 \<and>
               Body (createStreamHandler marshal sum256 handlers cacheAge cachePublic True
                       t b64 r) = StreamsJSON items) \<and>
         RespHeader (createCatalogHandler marshal sum256 handlers cacheAge cachePublic True
                       t b64 r) ''ETag'' = Some (EncodeToString (sum256 jsonData)) \<and>
         (if HeaderGet r ''If-None-Match'' = EncodeToString (sum256 jsonData)
          then StatusCode (createCatalogHandler marshal sum256 handlers cacheAge cachePublic True
                             t b64 r) = 304 \<and>
               Body (createCatalogHandler marshal sum256 handlers cacheAge cachePublic True
                       t b64 r) = NoBody
          else StatusCode (createCatalogHandler marshal sum256 handlers cacheAge cachePublic True
                             t b64 r) = 200 \<and>
               Body (createCatalogHandler marshal sum256 handlers cacheAge cachePublic True
                       t b64 r) = MetasJSON items)"
  using assms
  by (simp add: createStreamHandler_def createCatalogHandler_def generateETag_def Let_def)

text \<open>
  A stream request for the film of the test that carries the \<open>ETag\<close> of the response,
  under the stand-ins of \<open>testLib\<close>: the serialization is \<open>[]\<close> and its hash the same
  two bytes.
\<close>

theorem handlers_ETag_witness:
  "RespHeader (createStreamHandler (Marshal testLib) (Sum256 testLib) testStreamHandlers
      3600 False True None False (testRequest [] ''movie'' ''tt1254207.json'' ''5b5d''))
      ''ETag'' = Some ''5b5d'' \<and>
   StatusCode (createStreamHandler (Marshal testLib) (Sum256 testLib) testStreamHandlers
      3600 False True None False (testRequest [] ''movie'' ''tt1254207.json'' ''5b5d''))
      = 304 \<and>
   Body (createStreamHandler (Marshal testLib) (Sum256 testLib) testStreamHandlers
      3600 False True None False (testRequest [] ''movie'' ''tt1254207.json'' ''5b5d''))
      = NoBody"
proof -
  have lib: "Marshal testLib [testStreamItem] = Some ''[]''" "Sum256 testLib ''[]'' = ''[]''"
    by (simp_all add: testLib_def)
  have hex: "EncodeToString ''[]'' = ''5b5d''"
    by (simp add: EncodeToString_def hexByte_def)
  show ?thesis
    using handlers_ETag[where r="testRequest [] ''movie'' ''tt1254207.json'' ''5b5d''"
        and t=None and ?b64.0=False and decodedUserData="StringValue []"
        and handlers=testStreamHandlers and handler=testStreamHandler
        and items="[testStreamItem]" and marshal="Marshal testLib" and jsonData="''[]''"
        and ?sum256.0="Sum256 testLib" and cacheAge=3600 and cachePublic=False]
    by (simp add: testRequest_simps testRequest_IfNoneMatch TrimSuffix_examples
          decodeUserData_no_type testStreamHandlers_def testStreamHandler_def lib hex)
qed

text \<open>
  Claim C2, which the code does not meet. The catalog handler does not test the error
  of the callback with \<^verbatim>\<open>errors.Is(err, ErrNotFound)\<close> as the stream handler does: every
  error of a catalog callback, the sentinel included, is answered 500. The catalog example
  of the repository returns the sentinel for an unknown catalog.
\<close>

theorem createCatalogHandler_handler_error:
  assumes "PathValue r ''type'' \<noteq> []" and "PathValue r ''id'' \<noteq> []"
    and "decodeUserData (if PathValue r ''userData'' = [] then QueryGet r ''userData''
                         else PathValue r ''userData'') t b64 = (decodedUserData, None)"
    and "handlers (PathValue r ''type'') = Some handler"
    and "handler (Context r) (TrimSuffix (PathValue r ''id'') ''.json'') decodedUserData
           = (items, Some err)"
  shows "createCatalogHandler marshal sum256 handlers cacheAge cachePublic handleEtag t b64 r =
           httpError ''Failed to get catalog'' 500"
  using assms by (simp add: createCatalogHandler_def Let_def)

text \<open>The catalog \<open>sintel\<close> asked of the handler of the catalog example.\<close>

theorem createCatalogHandler_handler_error_witness:
  "movieHandler () ''sintel'' (StringValue []) = ([], Some ErrNotFound) \<and>
   StatusCode (createCatalogHandler (\<lambda>items. Some ''[]'') (\<lambda>bytes. bytes)
      [''movie'' \<mapsto> movieHandler] 0 False False None False
      (testRequest [] ''movie'' ''sintel.json'' [])) = 500"
  using createCatalogHandler_handler_error[where r="testRequest [] ''movie'' ''sintel.json'' []"
      and t=None and ?b64.0=False and decodedUserData="StringValue []"
      and handlers="[''movie'' \<mapsto> movieHandler]" and handler=movieHandler and items="[]"
      and err=ErrNotFound and marshal="\<lambda>items. Some ''[]''" and ?sum256.0="\<lambda>bytes. bytes"
      and cacheAge=0 and cachePublic=False and handleEtag=False]
  by (simp add: testRequest_simps TrimSuffix_examples decodeUserData_no_type movieHandler_def
        httpError_def)

text \<open>
  Claim C6. When the callback of a stream request returns an error that is the sentinel
  (or wraps it), the response is 404, whatever the cache age, the public flag and the
  ETag flag are; for any other error it is 500 with a fixed plain-text message, in which
  the error does not occur.
\<close>

theorem createStreamHandler_handler_error:
  assumes "PathValue r ''type'' \<noteq> []" and "PathValue r ''id'' \<noteq> []"
    and "decodeUserData (if PathValue r ''userData'' = [] then QueryGet r ''userData''
                         else PathValue r ''userData'') t b64 = (decodedUserData, None)"
    and "handlers (PathValue r ''type'') = Some handler"
    and "handler (Context r) (TrimSuffix (PathValue r ''id'') ''.json'') decodedUserData
           = (items, Some err)"
  shows "createStreamHandler marshal sum256 handlers cacheAge cachePublic handleEtag t b64 r =
           (if Is err ErrNotFound then httpError ''Not found'' 404
            else httpError ''Failed to get streams'' 500)"
  using assms by (simp add: createStreamHandler_def Let_def)

text \<open>A stream request for the unknown film of the test, with every cache option set.\<close>

theorem createStreamHandler_handler_error_witness:
  "StatusCode (createStreamHandler (Marshal testLib) (Sum256 testLib) testStreamHandlers
      3600 True True None False (testRequest [] ''movie'' ''tt0000000.json'' [])) = 404"
  using createStreamHandler_handler_error[where r="testRequest [] ''movie'' ''tt0000000.json'' []"
      and t=None and ?b64.0=False and decodedUserData="StringValue []"
      and handlers=testStreamHandlers and handler=testStreamHandler and items="[]"
      and err=ErrNotFound and marshal="Marshal testLib" and ?sum256.0="Sum256 testLib"
      and cacheAge=3600 and cachePublic=True and handleEtag=True]
  by (simp add: testRequest_simps TrimSuffix_examples decodeUserData_no_type
        testStreamHandlers_def testStreamHandler_def httpError_def)

section \<open>Construction\<close>

text \<open>
  Claim C9. When public caching or ETag handling is enabled for catalogs or for streams
  and the cache age of the same kind is 0, \<^verbatim>\<open>NewAddon\<close> returns an error and no addon:
  the error of this precondition, or the error of one of the two preconditions that are
  checked before it. The check is made in \<^verbatim>\<open>NewAddon\<close> only: a handler that is given
  a cache age of 0 with the flags answers a successful request with 200 or 304 all the same.
\<close>

theorem NewAddon_cache_flags_need_cache_age:
  assumes "(CachePublicCatalogs opts' \<and> CacheAgeCatalogs opts' = 0) \<or>
           (CachePublicStreams opts' \<and> CacheAgeStreams opts' = 0) \<or>
           (HandleEtagCatalogs opts' \<and> CacheAgeCatalogs opts' = 0) \<or>
           (HandleEtagStreams opts' \<and> CacheAgeStreams opts' = 0)"
  shows "NewAddon manifest' catalogHandlers' streamHandlers' opts' \<in>
           {Inl ''An empty manifest was passed'', Inl ''No handler was passed'',
            Inl ''Enabling public caching only makes sense when also setting a cache age'',
            Inl ''ETag handling only makes sense when also setting a cache age''} \<and>
         (PathValue r ''type'' \<noteq> [] \<and> PathValue r ''id'' \<noteq> [] \<and>
          decodeUserData (if PathValue r ''userData'' = [] then QueryGet r ''userData''
                          else PathValue r ''userData'') t b64 = (decodedUserData, None) \<and>
          handlers (PathValue r ''type'') = Some handler \<and>
          handler (Context r) (TrimSuffix (PathValue r ''id'') ''.json'') decodedUserData
            = (items, None) \<longrightarrow>
          StatusCode (createStreamHandler marshal sum256 handlers 0 cachePublic handleEtag
                        t b64 r) \<in> {200, 304} \<and>
          StatusCode (createCatalogHandler marshal sum256 handlers 0 cachePublic handleEtag
                        t b64 r) \<in> {200, 304})"
proof -
  let ?empty = "ID manifest' = [] \<or> Name manifest' = [] \<or> Description manifest' = [] \<or>
                Version manifest' = []"
  let ?none = "catalogHandlers' = None \<and> streamHandlers' = None"
  let ?public = "(CachePublicCatalogs opts' \<and> CacheAgeCatalogs opts' = 0) \<or>
                 (CachePublicStreams opts' \<and> CacheAgeStreams opts' = 0)"
  let ?etag = "(HandleEtagCatalogs opts' \<and> CacheAgeCatalogs opts' = 0) \<or>
               (HandleEtagStreams opts' \<and> CacheAgeStreams opts' = 0)"
  let ?errors = "{Inl ''An empty manifest was passed'', Inl ''No handler was passed'',
            Inl ''Enabling public caching only makes sense when also setting a cache age'',
            Inl ''ETag handling only makes sense when also setting a cache age''}
            :: (string + ('a, 'b, 'c) Addon) set"
  consider (empty) ?empty | (none) "\<not> ?empty" ?none
    | (public) "\<not> ?empty" "\<not> ?none" ?public
    | (etag) "\<not> ?empty" "\<not> ?none" "\<not> ?public" ?etag
    using assms by blast
  then have construction: "NewAddon manifest' catalogHandlers' streamHandlers' opts' \<in> ?errors"
  proof cases
    case empty
    then have "NewAddon manifest' catalogHandlers' streamHandlers' opts' =
                 Inl ''An empty manifest was passed''"
      by (simp add: NewAddon_def)
    then show ?thesis by blast
  next
    case none
    then have "NewAddon manifest' catalogHandlers' streamHandlers' opts' =
                 Inl ''No handler was passed''"
      by (simp add: NewAddon_def)
    then show ?thesis by blast
  next
    case public
    then have "NewAddon manifest' catalogHandlers' streamHandlers' opts' =
                 Inl ''Enabling public caching only makes sense when also setting a cache age''"
      by (simp add: NewAddon_def)
    then show ?thesis by blast
  next
    case etag
    then have "NewAddon manifest' catalogHandlers' streamHandlers' opts' =
                 Inl ''ETag handling only makes sense when also setting a cache age''"
      by (simp add: NewAddon_def)
    then show ?thesis by blast
  qed
  have "StatusCode (createStreamHandler marshal sum256 handlers 0 cachePublic handleEtag
                        t b64 r) \<in> {200, 304} \<and>
        StatusCode (createCatalogHandler marshal sum256 handlers 0 cachePublic handleEtag
                        t b64 r) \<in> {200, 304}"
    if "PathValue r ''type'' \<noteq> []" and "PathValue r ''id'' \<noteq> []"
      and "decodeUserData (if PathValue r ''userData'' = [] then QueryGet r ''userData''
                          else PathValue r ''userData'') t b64 = (decodedUserData, None)"
      and "handlers (PathValue r ''type'') = Some handler"
      and "handler (Context r) (TrimSuffix (PathValue r ''id'') ''.json'') decodedUserData
            = (items, None)"
    using that by (simp add: createStreamHandler_def createCatalogHandler_def Let_def)
  with construction show ?thesis by blast
qed

text \<open>
  The scenario of the spec: the options of the test with public caching of streams and no
  cache age; and a stream request for the film of the test, handled with that flag and
  age.
\<close>

theorem NewAddon_cache_flags_need_cache_age_witness:
  "(NewAddon testManifest None (Some testStreamHandlers)
      (DefaultOptions\<lparr>CachePublicStreams := True\<rparr>)
      :: string + (unit, string, StreamItem list) Addon) =
     Inl ''Enabling public caching only makes sense when also setting a cache age'' \<and>
   StatusCode (createStreamHandler (Marshal testLib) (Sum256 testLib) testStreamHandlers 0 True False None False
      (testRequest [] ''movie'' ''tt1254207.json'' [])) = 200"
proof -
  have flags: "CachePublicStreams (DefaultOptions\<lparr>CachePublicStreams := True\<rparr>) \<and>
        CacheAgeStreams (DefaultOptions\<lparr>CachePublicStreams := True\<rparr>) = 0"
    by (simp add: DefaultOptions_def)
  have m: "ID testManifest \<noteq> [] \<and> Name testManifest \<noteq> [] \<and> Description testManifest \<noteq> [] \<and>
        Version testManifest \<noteq> []"
    by (simp add: testManifest_def)
  have c: "\<not> CachePublicCatalogs (DefaultOptions\<lparr>CachePublicStreams := True\<rparr>)"
    by (simp add: DefaultOptions_def)
  have first: "NewAddon testManifest None (Some testStreamHandlers)
      (DefaultOptions\<lparr>CachePublicStreams := True\<rparr>) =
     (Inl ''Enabling public caching only makes sense when also setting a cache age''
        :: string + (unit, string, StreamItem list) Addon)"
    using flags m c by (simp add: NewAddon_def)
  have h: "testStreamHandler () ''tt1254207'' (StringValue []) = ([testStreamItem], None)"
    by (simp add: testStreamHandler_def)
  have disj: "(CachePublicCatalogs (DefaultOptions\<lparr>CachePublicStreams := True\<rparr>) \<and>
            CacheAgeCatalogs (DefaultOptions\<lparr>CachePublicStreams := True\<rparr>) = 0) \<or>
           (CachePublicStreams (DefaultOptions\<lparr>CachePublicStreams := True\<rparr>) \<and>
            CacheAgeStreams (DefaultOptions\<lparr>CachePublicStreams := True\<rparr>) = 0) \<or>
           (HandleEtagCatalogs (DefaultOptions\<lparr>CachePublicStreams := True\<rparr>) \<and>
            CacheAgeCatalogs (DefaultOptions\<lparr>CachePublicStreams := True\<rparr>) = 0) \<or>
           (HandleEtagStreams (DefaultOptions\<lparr>CachePublicStreams := True\<rparr>) \<and>
            CacheAgeStreams (DefaultOptions\<lparr>CachePublicStreams := True\<rparr>) = 0)"
    using flags by blast
  have "StatusCode (createStreamHandler (Marshal testLib) (Sum256 testLib) testStreamHandlers 0 True False None False
      (testRequest [] ''movie'' ''tt1254207.json'' [])) \<in> {200, 304}"
    using NewAddon_cache_flags_need_cache_age[OF disj, where manifest'=testManifest
        and catalogHandlers'="None :: (string \<rightharpoonup> (unit, string, StreamItem list) ResourceHandler) option"
        and streamHandlers'="Some testStreamHandlers"
        and r="testRequest [] ''movie'' ''tt1254207.json'' []" and t=None and ?b64.0=False
        and decodedUserData="StringValue []" and handlers=testStreamHandlers
        and handler=testStreamHandler and items="[testStreamItem]" and marshal="Marshal testLib"
        and ?sum256.0="Sum256 testLib" and cachePublic=True and handleEtag=False]
    by (simp add: testRequest_simps TrimSuffix_examples decodeUserData_no_type
          testStreamHandlers_def h)
  moreover have "StatusCode (createStreamHandler (Marshal testLib) (Sum256 testLib) testStreamHandlers 0 True False None False
      (testRequest [] ''movie'' ''tt1254207.json'' [])) \<noteq> 304"
    by (simp add: createStreamHandler_def testRequest_simps TrimSuffix_examples
          decodeUserData_no_type testStreamHandlers_def h)
  ultimately show ?thesis using first by simp
qed


section \<open>The route matcher\<close>

text \<open>A response does not change when the heap gets more \<^verbatim>\<open>ServeMux\<close> objects.\<close>

lemma ServeHTTP_append:
  "ServeHTTP match n hp h m r = Some out \<Longrightarrow> ServeHTTP match n (hp @ muxes) h m r = Some out"
proof (induction n arbitrary: h r)
  case 0
  then show ?case by simp
next
  case (Suc n)
  then show ?case
    by (cases h) (auto simp: nth_append split: option.splits sum.splits if_splits)
qed

lemma createStreamHandler_test:
  "createStreamHandler (Marshal testLib) (Sum256 testLib) testStreamHandlers 0 False False None
      False (testRequest [] ''movie'' ''tt1254207.json'' []) =
    \<lparr>StatusCode = 200, RespHeader = [''Content-Type'' \<mapsto> ''application/json''],
      Body = StreamsJSON [testStreamItem]\<rparr>"
  by (simp add: createStreamHandler_def testRequest_simps TrimSuffix_examples
        decodeUserData_no_type testStreamHandlers_def testStreamHandler_def)

text \<open>
  The call panics only when \<^verbatim>\<open>net/http\<close> refuses the pattern \<open>/\<close> on an empty mux.
\<close>

lemma addRouteMatcherMiddleware_panics:
  "addRouteMatcherMiddleware accepts hp mux configurationRequired streamIDregex = None
     \<longleftrightarrow> \<not> accepts [] ''/''"
  by (simp add: addRouteMatcherMiddleware_def NewServeMux_def Handle_def)

text \<open>
  Claim C3, which the code does not meet. The comment in \<^verbatim>\<open>addRouteMatcherMiddleware\<close>
  says that it wraps the mux with the middleware, but the wrapping mux is bound to the
  parameter of the function only and is lost when it returns. When the call returns, the
  heap has one more mux, which holds the closure and to which nothing points, and the mux
  of the caller answers every request as it did before the call, whatever the flag and
  the pattern are: the closure that rejects a request without user data or with an id
  that fails the pattern is not called. \<^verbatim>\<open>Run\<close>, the only caller, passes the mux on which
  it has registered its handlers and makes that same mux the handler of its server.
\<close>

theorem addRouteMatcherMiddleware_leaves_mux:
  assumes "addRouteMatcherMiddleware accepts hp mux configurationRequired streamIDregex
             = Some hp'"
    and "ServeHTTP match n hp (ServeMux mux) m r = Some out"
  shows "hp' = hp @ [[(''/'', Middleware
                         (routeMatcherMiddleware configurationRequired streamIDregex)
                         (ServeMux mux))]] \<and>
         ServeHTTP match n hp' (ServeMux mux) m r = Some out"
proof -
  from assms(1)
  have "hp' = hp @ [[(''/'', Middleware
                        (routeMatcherMiddleware configurationRequired streamIDregex)
                        (ServeMux mux))]]"
    by (auto simp: addRouteMatcherMiddleware_def NewServeMux_def Handle_def
          split: if_splits)
  with assms(2) show ?thesis
    by (simp add: ServeHTTP_append)
qed

text \<open>
  A mux with the stream handler of the test, for which the function is called with
  \<open>configurationRequired\<close> and a pattern for the ids with the prefix \<open>kitsu:\<close>;
  \<^verbatim>\<open>net/http\<close> accepts the pattern \<open>/\<close> on the new mux. Then a request with no user
  data and the id of the film, which the mux gives to its only pattern: the closure
  answers such a request with 400, and the mux answers it with the stream.
\<close>

theorem addRouteMatcherMiddleware_leaves_mux_witness:
  "addRouteMatcherMiddleware (\<lambda>patterns pattern. patterns = [] \<and> pattern = ''/'')
       testMux 0 True (Some kitsuOnly) =
     Some (testMux @
       [[(''/'', Middleware (routeMatcherMiddleware True (Some kitsuOnly)) (ServeMux 0))]]) \<and>
   ServeHTTP (\<lambda>patterns r. Some (0, r)) 2
       (testMux @
          [[(''/'', Middleware (routeMatcherMiddleware True (Some kitsuOnly)) (ServeMux 0))]])
       (ServeMux 0) testManifest (testRequest [] ''movie'' ''tt1254207.json'' []) =
     Some (\<lparr>StatusCode = 200, RespHeader = [''Content-Type'' \<mapsto> ''application/json''],
            Body = StreamsJSON [testStreamItem]\<rparr>, testManifest) \<and>
   (routeMatcherMiddleware True (Some kitsuOnly)
       (testRequest [] ''movie'' ''tt1254207.json'' [])
       :: StreamItem list response + unit request) =
     Inl (httpError ''Configuration required'' 400) \<and>
   (routeMatcherMiddleware False (Some kitsuOnly)
       (testRequest [] ''movie'' ''tt1254207.json'' [])
       :: StreamItem list response + unit request) =
     Inl (httpError ''Invalid stream ID'' 400)"
proof -
  let ?gate = "[[(''/'', Middleware (routeMatcherMiddleware True (Some kitsuOnly)) (ServeMux 0))]]
                 :: (unit, StreamItem list) heap"
  have called: "addRouteMatcherMiddleware (\<lambda>patterns pattern. patterns = [] \<and> pattern = ''/'')
       testMux 0 True (Some kitsuOnly) = Some (testMux @ ?gate)"
    by (simp add: addRouteMatcherMiddleware_def NewServeMux_def Handle_def testMux_def)
  have before: "ServeHTTP (\<lambda>patterns r. Some (0, r)) 2 testMux (ServeMux 0) testManifest
       (testRequest [] ''movie'' ''tt1254207.json'' []) =
     Some (\<lparr>StatusCode = 200, RespHeader = [''Content-Type'' \<mapsto> ''application/json''],
            Body = StreamsJSON [testStreamItem]\<rparr>, testManifest)"
    by (simp add: testMux_def numeral_2_eq_2 createStreamHandler_test)
  have closure:
    "(routeMatcherMiddleware True (Some kitsuOnly)
        (testRequest [] ''movie'' ''tt1254207.json'' [])
        :: StreamItem list response + unit request) =
       Inl (httpError ''Configuration required'' 400)"
    "(routeMatcherMiddleware False (Some kitsuOnly)
        (testRequest [] ''movie'' ''tt1254207.json'' [])
        :: StreamItem list response + unit request) =
       Inl (httpError ''Invalid stream ID'' 400)"
    by (simp_all add: routeMatcherMiddleware_def testRequest_simps kitsuOnly_def)
  from addRouteMatcherMiddleware_leaves_mux[OF called before] called closure
  show ?thesis by simp
qed

end
